theory Spec2Isabelle
  imports Complex_Main "HOL-Library.Sublist"
begin

section \<open>Strings and numbers of the host language\<close>

text \<open>
  The server (\<^verbatim>\<open>src/index.ts\<close>) is TypeScript. A string of the host language is a
  sequence of UTF-16 code units; this development reads a \<^typ>\<open>char\<close> as a code unit
  below 256 (ASCII and Latin-1), so every statement about "every prompt" ranges over
  the strings made of such code units. Diagnostic output (\<^verbatim>\<open>console.error\<close>) is a side
  channel of the program and is left out of the model.
\<close>

definition code_unit :: "char \<Rightarrow> nat" where
  "code_unit c = of_char c"

text \<open>The character class \<^verbatim>\<open>[a-z0-9]\<close>.\<close>

definition is_lower_alnum :: "char \<Rightarrow> bool" where
  "is_lower_alnum c =
     (let n = code_unit c in (97 \<le> n \<and> n \<le> 122) \<or> (48 \<le> n \<and> n \<le> 57))"

text \<open>
  The character class \<^verbatim>\<open>\s\<close> of a regular expression, below 256: TAB, LF, VT, FF, CR,
  SPACE and NO-BREAK SPACE.
\<close>

definition is_space :: "char \<Rightarrow> bool" where
  "is_space c = (code_unit c \<in> {9, 10, 11, 12, 13, 32, 160})"

text \<open>
  \<^verbatim>\<open>String.prototype.toLowerCase\<close> below 256: the capitals A-Z and the Latin-1 capitals
  U+00C0-U+00DE (without the multiplication sign U+00D7) move up by 32.
\<close>

definition lower_char :: "char \<Rightarrow> char" where
  "lower_char c =
     (let n = code_unit c in
      if (65 \<le> n \<and> n \<le> 90) \<or> (192 \<le> n \<and> n \<le> 222 \<and> n \<noteq> 215)
      then char_of (n + 32) else c)"

definition toLowerCase :: "string \<Rightarrow> string" where
  "toLowerCase s = map lower_char s"

text \<open>\<^verbatim>\<open>.replace(/[^a-z0-9\s]/g, '')\<close>: every character outside the class is dropped.\<close>

definition strip_unsafe :: "string \<Rightarrow> string" where
  "strip_unsafe s = filter (\<lambda>c. is_lower_alnum c \<or> is_space c) s"

text \<open>\<^verbatim>\<open>.replace(/\s+/g, '_')\<close>: every maximal run of white space becomes one underscore.\<close>

function collapse_ws :: "string \<Rightarrow> string" where
  "collapse_ws [] = []"
| "collapse_ws (c # cs) =
     (if is_space c then CHR ''_'' # collapse_ws (dropWhile is_space cs)
      else c # collapse_ws cs)"
  by pat_completeness auto
termination
  by (relation "measure length") (auto simp: length_dropWhile_le less_Suc_eq_le)

text \<open>
  The expression bound to \<^verbatim>\<open>safePrompt\<close> in \<^verbatim>\<open>generateImageFilename\<close> (lines 105-109):
  lower-case, strip, collapse white space, \<^verbatim>\<open>.substring(0, 50)\<close>.
\<close>

definition safePrompt :: "string \<Rightarrow> string" where
  "safePrompt prompt = take 50 (collapse_ws (strip_unsafe (toLowerCase prompt)))"

text \<open>
  \<^verbatim>\<open>new Date().toISOString().replace(/[:.]/g, '-')\<close> (line 111). The clock is an input
  of the model: \<open>isoString\<close> is what \<^verbatim>\<open>toISOString\<close> returned.
\<close>

definition dash_char :: "char \<Rightarrow> char" where
  "dash_char c = (if c = CHR '':'' \<or> c = CHR ''.'' then CHR ''-'' else c)"

definition timestamp_of :: "string \<Rightarrow> string" where
  "timestamp_of isoString = map dash_char isoString"

text \<open>
  A number inside a template literal. The numbers printed by this program are counts,
  indices, status codes, seeds and byte sizes. An integer within the safe range
  (magnitude at most \<open>2\<^sup>5\<^sup>3 - 1\<close>) is printed in decimal, digit for digit. Beyond it
  the engine prints the shortest digits that identify the floating-point value, and from
  \<open>10\<^sup>2\<^sup>1\<close> on an exponent (\<^verbatim>\<open>1e+21\<close>): that text is not computed here, it is the
  parameter \<open>big\<close>, the engine's conversion of such values.
\<close>

fun digits :: "nat \<Rightarrow> string" where
  "digits n =
     (if n < 10 then [char_of (48 + n)] else digits (n div 10) @ [char_of (48 + n mod 10)])"

definition number_to_string :: "(int \<Rightarrow> string) \<Rightarrow> int \<Rightarrow> string" where
  "number_to_string big i =
     (if \<bar>i\<bar> \<le> 9007199254740991
      then (if i < 0 then ''-'' @ digits (nat (- i)) else digits (nat i))
      else big i)"

text \<open>
  \<^verbatim>\<open>generateImageFilename(prompt, index, seed?)\<close> (lines 104-114). The seed is optional
  (\<open>None\<close> is \<^verbatim>\<open>undefined\<close>); \<^verbatim>\<open>seed ? `_${seed}` : ''\<close> tests the truthiness of a
  number, which is false for \<^verbatim>\<open>undefined\<close> and for 0.
\<close>

definition seedStr :: "(int \<Rightarrow> string) \<Rightarrow> int option \<Rightarrow> string" where
  "seedStr big seed =
     (case seed of
        None \<Rightarrow> ''''
      | Some s \<Rightarrow> if s \<noteq> 0 then ''_'' @ number_to_string big s else '''')"

definition generateImageFilename ::
  "(int \<Rightarrow> string) \<Rightarrow> string \<Rightarrow> string \<Rightarrow> nat \<Rightarrow> int option \<Rightarrow> string" where
  "generateImageFilename big isoString prompt index seed =
     ''ideogram_v3_'' @ safePrompt prompt @ seedStr big seed @ ''_'' @
     number_to_string big (int index) @ ''_'' @ timestamp_of isoString @ ''.png''"

text \<open>\<^verbatim>\<open>Array.prototype.join\<close> on strings.\<close>

fun join :: "string \<Rightarrow> string list \<Rightarrow> string" where
  "join sep [] = ''''"
| "join sep [x] = x"
| "join sep (x # y # ys) = x @ sep @ join sep (y # ys)"

text \<open>
  Truthiness, as the conditions of the program use it: an optional string is truthy
  when it is defined and not empty, an optional number when it is defined and not 0.
\<close>

definition truthy_string :: "string option \<Rightarrow> bool" where
  "truthy_string s = (case s of None \<Rightarrow> False | Some v \<Rightarrow> v \<noteq> '''')"

definition truthy_number :: "int option \<Rightarrow> bool" where
  "truthy_number n = (case n of None \<Rightarrow> False | Some v \<Rightarrow> v \<noteq> 0)"

text \<open>A destructuring default, \<^verbatim>\<open>{ x = d } = args\<close>, and \<^verbatim>\<open>x || d\<close> on a string.\<close>

definition or_default :: "'a \<Rightarrow> 'a option \<Rightarrow> 'a" where
  "or_default d x = (case x of None \<Rightarrow> d | Some v \<Rightarrow> v)"

definition or_else :: "string option \<Rightarrow> string \<Rightarrow> string" where
  "or_else s d = (case s of None \<Rightarrow> d | Some v \<Rightarrow> if v \<noteq> '''' then v else d)"

definition bool_to_string :: "bool \<Rightarrow> string" where
  "bool_to_string x = (if x then ''true'' else ''false'')"

section \<open>Data model\<close>

text \<open>
  The request parameters, with the types the input schema of the tools declares
  (lines 127-250 and 431-525): the enumerations are datatypes, an optional property is
  an \<open>option\<close>, \<open>None\<close> being \<^verbatim>\<open>undefined\<close>.
\<close>

datatype image_size_preset =
  square_hd | square | portrait_4_3 | portrait_16_9 | landscape_4_3 | landscape_16_9

datatype image_size = Preset image_size_preset | ImageSize int int

datatype rendering_speed = TURBO | BALANCED | QUALITY

datatype style = AUTO | GENERAL | REALISTIC | DESIGN

datatype palette_name =
  EMBER | FRESH | JUNGLE | MAGIC | MELON | MOSAIC | PASTEL | ULTRAMARINE

record RGBColor =
  r :: int
  g :: int
  b :: int

record ColorPaletteMember =
  rgb :: RGBColor
  color_weight :: "real option"

record ColorPalette =
  members :: "ColorPaletteMember list option"
  name :: "palette_name option"

text \<open>
  The object sent to the backend as \<^verbatim>\<open>input\<close>. The arguments of \<^verbatim>\<open>ideogram_v3_generate\<close>
  and \<^verbatim>\<open>ideogram_v3_generate_queue\<close> are the same properties and \<^verbatim>\<open>webhook_url\<close>.
\<close>

record payload =
  prompt :: string
  negative_prompt :: "string option"
  image_size :: "image_size option"
  rendering_speed :: "rendering_speed option"
  style :: "style option"
  style_codes :: "string list option"
  color_palette :: "ColorPalette option"
  image_urls :: "string list option"
  expand_prompt :: "bool option"
  num_images :: "int option"
  seed :: "int option"
  sync_mode :: "bool option"

record args = payload +
  webhook_url :: "string option"

record result_args =
  request_id :: string

record status_args = result_args +
  logs :: "bool option"

fun preset_to_string :: "image_size_preset \<Rightarrow> string" where
  "preset_to_string square_hd = ''square_hd''"
| "preset_to_string square = ''square''"
| "preset_to_string portrait_4_3 = ''portrait_4_3''"
| "preset_to_string portrait_16_9 = ''portrait_16_9''"
| "preset_to_string landscape_4_3 = ''landscape_4_3''"
| "preset_to_string landscape_16_9 = ''landscape_16_9''"

fun speed_to_string :: "rendering_speed \<Rightarrow> string" where
  "speed_to_string TURBO = ''TURBO''"
| "speed_to_string BALANCED = ''BALANCED''"
| "speed_to_string QUALITY = ''QUALITY''"

fun style_to_string :: "style \<Rightarrow> string" where
  "style_to_string AUTO = ''AUTO''"
| "style_to_string GENERAL = ''GENERAL''"
| "style_to_string REALISTIC = ''REALISTIC''"
| "style_to_string DESIGN = ''DESIGN''"

fun palette_to_string :: "palette_name \<Rightarrow> string" where
  "palette_to_string EMBER = ''EMBER''"
| "palette_to_string FRESH = ''FRESH''"
| "palette_to_string JUNGLE = ''JUNGLE''"
| "palette_to_string MAGIC = ''MAGIC''"
| "palette_to_string MELON = ''MELON''"
| "palette_to_string MOSAIC = ''MOSAIC''"
| "palette_to_string PASTEL = ''PASTEL''"
| "palette_to_string ULTRAMARINE = ''ULTRAMARINE''"

text \<open>
  What the backend returns (\<^verbatim>\<open>IdeogramImageResult\<close>, lines 29-37). The field \<^verbatim>\<open>seed\<close> of
  the result is \<open>output_seed\<close> here, the request has a \<open>seed\<close> of its own. \<open>images = None\<close>
  is a response of unexpected shape: no \<^verbatim>\<open>images\<close> array to read the length of.
\<close>

record IdeogramImage =
  url :: string
  content_type :: "string option"
  file_name :: "string option"
  file_size :: "int option"

record IdeogramImageResult =
  images :: "IdeogramImage list option"
  output_seed :: "int option"

record fal_result =
  data :: IdeogramImageResult
  requestId :: string

record queue_log =
  log_timestamp :: string
  message :: string

record queue_status =
  status :: string
  response_url :: "string option"
  status_logs :: "queue_log list option"

text \<open>
  An entry of \<^verbatim>\<open>downloadedImages\<close> (lines 334-342 and 347-355); \<open>localPath = None\<close> is
  \<^verbatim>\<open>null\<close>. Its fields \<^verbatim>\<open>url\<close>, \<^verbatim>\<open>index\<close>, \<^verbatim>\<open>content_type\<close>, \<^verbatim>\<open>file_name\<close> and \<^verbatim>\<open>file_size\<close>
  carry the prefix \<open>img_\<close>.
\<close>

record downloaded_image =
  img_url :: string
  localPath :: "string option"
  img_index :: nat
  img_content_type :: string
  img_file_name :: string
  img_file_size :: "int option"
  filename :: string

text \<open>
  The result of a tool: the text of its one content item (\<open>text_of\<close>) and the optional
  \<^verbatim>\<open>isError\<close> property, which the success results do not have.
\<close>

record response =
  text_of :: string
  isError :: "bool option"

section \<open>Errors and effects\<close>

text \<open>
  A thrown value is an \<^verbatim>\<open>Error\<close> with its message, or anything else
  (\<^verbatim>\<open>error instanceof Error\<close> is false).
\<close>

datatype thrown = Error string | NonError

text \<open>The outbound requests a tool makes, in the order it makes them.\<close>

datatype call =
    Subscribe payload
  | QueueSubmit payload "string option"
  | QueueStatus string bool
  | QueueResult string
  | HttpGet string

text \<open>
  The world a tool acts on: the directories and the files (with their contents) of the
  local file system, and the requests sent so far.
\<close>

record world =
  dirs :: "string set"
  files :: "string \<rightharpoonup> string"
  calls :: "call list"

text \<open>
  What a download meets. The request fails (\<open>RequestError\<close>), or a response arrives with
  a status code; the body of a response with status 200 then streams into the file
  until the stream finishes (\<open>Finish\<close>, with the bytes received), the file stream
  reports an error (\<open>WriteError\<close>, with the bytes written before it), or the connection
  is closed before the body is complete (\<open>Aborted\<close>, with the bytes written before it).
\<close>

datatype body_outcome = Finish string | WriteError string thrown | Aborted string

datatype http_outcome = RequestError thrown | HttpResponse int body_outcome

text \<open>
  How an asynchronous step ends: it returns a value (a promise settles, a tool hands its
  response to the host); or an exception that no handler catches ends the process; or
  nothing ever completes it.
\<close>

datatype 'a completion = Returns 'a | Uncaught thrown | Pending

text \<open>
  Everything outside the program that it consults: the backend client (\<^verbatim>\<open>fal.subscribe\<close>,
  \<^verbatim>\<open>fal.queue.submit\<close>, \<^verbatim>\<open>fal.queue.status\<close>, \<^verbatim>\<open>fal.queue.result\<close>), each returning a value
  or throwing; \<^verbatim>\<open>new URL\<close> and \<^verbatim>\<open>fs.mkdirSync\<close>, which may throw; whether the write stream
  of the \<open>n\<close>-th download of an invocation opens (\<open>None\<close>) or fails to (for instance
  because \<^verbatim>\<open>images\<close> is a regular file or not writable); the outcome of the request of the
  \<open>n\<close>-th download; the clock read for the \<open>n\<close>-th file name; the value of
  \<^verbatim>\<open>path.join(process.cwd(), 'images')\<close>; and the engine's conversion of numbers outside
  the safe range.
\<close>

record env =
  fal_subscribe :: "payload \<Rightarrow> thrown + fal_result"
  fal_queue_submit :: "payload \<Rightarrow> string option \<Rightarrow> thrown + string"
  fal_queue_status :: "string \<Rightarrow> bool \<Rightarrow> thrown + queue_status"
  fal_queue_result :: "string \<Rightarrow> thrown + fal_result"
  new_URL :: "string \<Rightarrow> thrown option"
  mkdirSync :: "thrown option"
  createWriteStream :: "nat \<Rightarrow> thrown option"
  http_get :: "nat \<Rightarrow> string \<Rightarrow> http_outcome"
  clock :: "nat \<Rightarrow> string"
  imagesDir :: string
  big_number :: "int \<Rightarrow> string"

section \<open>Start of the process\<close>

text \<open>
  Lines 13-26. \<^verbatim>\<open>!FAL_KEY\<close> holds for an unset variable and for an empty one. Neither
  branch calls \<^verbatim>\<open>process.exit\<close>: \<open>exit_code\<close> stays \<open>None\<close>.
\<close>

record process =
  falConfigured :: bool
  exit_code :: "int option"

definition startup :: "string option \<Rightarrow> process" where
  "startup FAL_KEY =
     (if \<not> truthy_string FAL_KEY
      then \<lparr>falConfigured = False, exit_code = None\<rparr>
      else \<lparr>falConfigured = True, exit_code = None\<rparr>)"

section \<open>Downloading an image\<close>

text \<open>
  \<^verbatim>\<open>downloadImage(url, filename)\<close> (lines 62-101); \<open>Returns (Inl err)\<close> is a rejected
  promise, \<open>Returns (Inr path)\<close> a resolved one. In the order of the source: parse the URL
  (line 65); create the images directory when it does not exist (lines 69-72); create
  the write stream (line 75) and send the request (line 77).

  The stream opens its file in the background, before any response can arrive. When it
  opens, the file exists, empty. When it cannot open, it emits \<^verbatim>\<open>error\<close>; the only listener
  for that event is attached inside the response callback (lines 90-93), so the event
  finds none and the error is an uncaught exception of the process.

  A request error (lines 94-96) and a status other than 200 (lines 78-81) reject and
  touch nothing else. On status 200 the body is piped into the file (line 83):
  \<^verbatim>\<open>finish\<close> resolves with the path; an error of the file stream unlinks the file and
  rejects; a connection closed before the end of the body ends the piping without
  \<^verbatim>\<open>finish\<close> and without an error of the file stream, and nothing listens to the
  response, so the promise is never settled.
\<close>

definition downloadImage ::
  "env \<Rightarrow> nat \<Rightarrow> string \<Rightarrow> string \<Rightarrow> world
     \<Rightarrow> (thrown + string) completion \<times> world" where
  "downloadImage e n target fname w =
     (case new_URL e target of
        Some err \<Rightarrow> (Returns (Inl err), w)
      | None \<Rightarrow>
          (case (if imagesDir e \<in> dirs w then None else mkdirSync e) of
             Some err \<Rightarrow> (Returns (Inl err), w)
           | None \<Rightarrow>
               (let w1 = w\<lparr>dirs := insert (imagesDir e) (dirs w)\<rparr>;
                    filePath = imagesDir e @ ''/'' @ fname;
                    w2 = w1\<lparr>calls := calls w1 @ [HttpGet target]\<rparr>
                in case createWriteStream e n of
                     Some err \<Rightarrow> (Uncaught err, w2)
                   | None \<Rightarrow>
                       (let w3 = w2\<lparr>files := (files w2)(filePath \<mapsto> '''')\<rparr>
                        in case http_get e n target of
                             RequestError err \<Rightarrow> (Returns (Inl err), w3)
                           | HttpResponse statusCode body \<Rightarrow>
                               if statusCode \<noteq> 200
                               then (Returns (Inl (Error (''Failed to download image: HTTP '' @
                                        number_to_string (big_number e) statusCode))), w3)
                               else (case body of
                                       Finish bytes \<Rightarrow>
                                         (Returns (Inr filePath),
                                          w3\<lparr>files := (files w3)(filePath \<mapsto> bytes)\<rparr>)
                                     | WriteError written err \<Rightarrow>
                                         (Returns (Inl err),
                                          w3\<lparr>files := (files w3)(filePath := None)\<rparr>)
                                     | Aborted written \<Rightarrow>
                                         (Pending,
                                          w3\<lparr>files := (files w3)(filePath \<mapsto> written)\<rparr>))))))"

section \<open>The download loop and the summary\<close>

text \<open>
  The loop of lines 328-357 (and 723-751): for the image at position \<open>i\<close> (from 0) the
  file name carries the index \<open>i + 1\<close>; the entry is appended whether the download
  resolved or rejected, with the local path or \<^verbatim>\<open>null\<close>. The loop awaits each download:
  when a download ends the process or is never settled, so does the loop, at that
  image.
\<close>

definition image_entry ::
  "IdeogramImage \<Rightarrow> string \<Rightarrow> nat \<Rightarrow> string option \<Rightarrow> downloaded_image" where
  "image_entry img fname i path =
     \<lparr>img_url = url img,
      localPath = path,
      img_index = i + 1,
      img_content_type = or_else (content_type img) ''image/png'',
      img_file_name = or_else (file_name img) fname,
      img_file_size = file_size img,
      filename = fname\<rparr>"

definition push ::
  "downloaded_image \<Rightarrow> downloaded_image list completion \<times> world
     \<Rightarrow> downloaded_image list completion \<times> world" where
  "push entry later =
     (case later of
        (Returns entries, w) \<Rightarrow> (Returns (entry # entries), w)
      | (Uncaught err, w) \<Rightarrow> (Uncaught err, w)
      | (Pending, w) \<Rightarrow> (Pending, w))"

fun download_loop ::
  "env \<Rightarrow> string \<Rightarrow> int option \<Rightarrow> nat \<Rightarrow> IdeogramImage list \<Rightarrow> world
     \<Rightarrow> downloaded_image list completion \<times> world" where
  "download_loop e label sd i [] w = (Returns [], w)"
| "download_loop e label sd i (img # rest) w =
     (let fname = generateImageFilename (big_number e) (clock e i) label (i + 1) sd in
      case downloadImage e i (url img) fname w of
        (Returns (Inr path), w1) \<Rightarrow>
          push (image_entry img fname i (Some path)) (download_loop e label sd (i + 1) rest w1)
      | (Returns (Inl downloadError), w1) \<Rightarrow>
          push (image_entry img fname i None) (download_loop e label sd (i + 1) rest w1)
      | (Uncaught err, w1) \<Rightarrow> (Uncaught err, w1)
      | (Pending, w1) \<Rightarrow> (Pending, w1))"

text \<open>The text of one entry (lines 360-372) and the two closing lines.\<close>

definition image_details :: "(int \<Rightarrow> string) \<Rightarrow> downloaded_image \<Rightarrow> string" where
  "image_details big img =
     ''Image '' @ number_to_string big (int (img_index img)) @ '':'' @
     (if truthy_string (localPath img)
      then ''\<newline>  Local Path: '' @ or_default '''' (localPath img) else '''') @
     ''\<newline>  Original URL: '' @ img_url img @
     ''\<newline>  Filename: '' @ filename img @
     ''\<newline>  Content Type: '' @ img_content_type img @
     (if truthy_number (img_file_size img)
      then ''\<newline>  File Size: '' @ number_to_string big (or_default 0 (img_file_size img)) @
           '' bytes''
      else '''')"

definition imageDetails :: "(int \<Rightarrow> string) \<Rightarrow> downloaded_image list \<Rightarrow> string" where
  "imageDetails big downloadedImages =
     join ''\<newline>\<newline>'' (map (image_details big) downloadedImages)"

definition download_note :: "downloaded_image list \<Rightarrow> string" where
  "download_note downloadedImages =
     (if \<exists>img \<in> set downloadedImages. truthy_string (localPath img)
      then ''Images have been downloaded to the local 'images' directory.''
      else ''Note: Local download failed, but original URLs are available.'')"

definition seed_line :: "(int \<Rightarrow> string) \<Rightarrow> int option \<Rightarrow> string" where
  "seed_line big sd =
     (if truthy_number sd then ''Seed: '' @ number_to_string big (or_default 0 sd)
      else ''Seed: Auto-generated'')"

text \<open>
  Reading \<^verbatim>\<open>output.images.length\<close> when there is no \<^verbatim>\<open>images\<close> throws a \<^verbatim>\<open>TypeError\<close>; the
  message is the engine's.
\<close>

definition no_images_error :: thrown where
  "no_images_error = Error ''Cannot read properties of undefined (reading 'length')''"

text \<open>The \<^verbatim>\<open>catch\<close> blocks of the four tools: the message, and the failure flag.\<close>

definition failure :: "string \<Rightarrow> thrown \<Rightarrow> response" where
  "failure errorMessage err =
     \<lparr>text_of = (case err of
                   Error msg \<Rightarrow> errorMessage @ '' Error: '' @ msg
                 | NonError \<Rightarrow> errorMessage),
      isError = Some True\<rparr>"

definition not_configured :: response where
  "not_configured =
     \<lparr>text_of = ''Error: FAL_KEY environment variable is not set. Please configure your fal.ai API key.'',
      isError = Some True\<rparr>"

definition conflicting_parameters :: response where
  "conflicting_parameters =
     \<lparr>text_of = ''Error: Cannot use both 'style' and 'style_codes' parameters together. Please use only one.'',
      isError = Some True\<rparr>"

text \<open>
  The validation of lines 281 and 542: \<^verbatim>\<open>style && style_codes && style_codes.length > 0\<close>.
  A style of the schema is a non-empty string and an array is an object, so both are
  truthy as soon as they are defined.
\<close>

definition style_conflict :: "'a payload_scheme \<Rightarrow> bool" where
  "style_conflict a =
     (style a \<noteq> None \<and> (case style_codes a of None \<Rightarrow> False | Some codes \<Rightarrow> length codes > 0))"

section \<open>The tool \<^verbatim>\<open>ideogram_v3_generate\<close>\<close>

text \<open>
  The object \<^verbatim>\<open>input\<close> of lines 264-307: the seven properties that the destructuring
  gives a default, then \<^verbatim>\<open>style\<close>, \<^verbatim>\<open>style_codes\<close>, \<^verbatim>\<open>color_palette\<close>, \<^verbatim>\<open>image_urls\<close> and \<^verbatim>\<open>seed\<close>,
  each under its own condition.
\<close>

definition non_empty_list :: "'a list option \<Rightarrow> 'a list option" where
  "non_empty_list xs = (case xs of None \<Rightarrow> None | Some l \<Rightarrow> if length l > 0 then Some l else None)"

definition build_input :: "'a payload_scheme \<Rightarrow> payload" where
  "build_input a =
     \<lparr>prompt = prompt a,
      negative_prompt = Some (or_default '''' (negative_prompt a)),
      image_size = Some (or_default (Preset square_hd) (image_size a)),
      rendering_speed = Some (or_default BALANCED (rendering_speed a)),
      style = style a,
      style_codes = non_empty_list (style_codes a),
      color_palette = color_palette a,
      image_urls = non_empty_list (image_urls a),
      expand_prompt = Some (or_default True (expand_prompt a)),
      num_images = Some (or_default 1 (num_images a)),
      seed = seed a,
      sync_mode = Some (or_default True (sync_mode a))\<rparr>"

definition imageSizeStr :: "(int \<Rightarrow> string) \<Rightarrow> image_size \<Rightarrow> string" where
  "imageSizeStr big sz =
     (case sz of
        Preset p \<Rightarrow> preset_to_string p
      | ImageSize width height \<Rightarrow>
          number_to_string big width @ ''x'' @ number_to_string big height)"

text \<open>The template of lines 376-393.\<close>

definition generate_text ::
  "(int \<Rightarrow> string) \<Rightarrow> 'a payload_scheme \<Rightarrow> fal_result \<Rightarrow> downloaded_image list \<Rightarrow> string" where
  "generate_text big a result downloadedImages =
     ''Successfully generated '' @ number_to_string big (int (length downloadedImages)) @
     '' image(s) using fal-ai/ideogram/v3:\<newline>\<newline>'' @
     ''Prompt: \"'' @ prompt a @ ''\"\<newline>'' @
     (if truthy_string (negative_prompt a)
      then ''Negative Prompt: \"'' @ or_default '''' (negative_prompt a) @ ''\"'' else '''') @
     ''\<newline>'' @
     ''Image Size: '' @ imageSizeStr big (or_default (Preset square_hd) (image_size a)) @
     ''\<newline>'' @
     ''Rendering Speed: '' @ speed_to_string (or_default BALANCED (rendering_speed a)) @
     ''\<newline>'' @
     (case style a of Some s \<Rightarrow> ''Style: '' @ style_to_string s | None \<Rightarrow> '''') @ ''\<newline>'' @
     (case non_empty_list (style_codes a) of
        Some codes \<Rightarrow> ''Style Codes: '' @ join '', '' codes | None \<Rightarrow> '''') @ ''\<newline>'' @
     (case color_palette a of
        Some palette \<Rightarrow>
          ''Color Palette: '' @
          (case name palette of Some n \<Rightarrow> palette_to_string n | None \<Rightarrow> ''Custom'')
      | None \<Rightarrow> '''') @ ''\<newline>'' @
     (case non_empty_list (image_urls a) of
        Some urls \<Rightarrow> ''Style Reference Images: '' @ number_to_string big (int (length urls))
      | None \<Rightarrow> '''') @ ''\<newline>'' @
     ''Expand Prompt: '' @ bool_to_string (or_default True (expand_prompt a)) @ ''\<newline>'' @
     seed_line big (output_seed (data result)) @ ''\<newline>'' @
     ''Request ID: '' @ requestId result @ ''\<newline>\<newline>'' @
     ''Generated Images:\<newline>'' @ imageDetails big downloadedImages @ ''\<newline>\<newline>'' @
     download_note downloadedImages"

text \<open>
  The \<^verbatim>\<open>try\<close> block (lines 279-403): \<open>Returns (Inl err)\<close> is a value thrown out of it,
  \<open>Returns (Inr res)\<close> a value it returns. A download that ends the process or is never
  settled leaves the block without either.
\<close>

definition generate_try ::
  "env \<Rightarrow> args \<Rightarrow> world \<Rightarrow> (thrown + response) completion \<times> world" where
  "generate_try e a w =
     (if style_conflict a then (Returns (Inr conflicting_parameters), w)
      else
        (let input = build_input a;
             w1 = w\<lparr>calls := calls w @ [Subscribe input]\<rparr>
         in case fal_subscribe e input of
              Inl err \<Rightarrow> (Returns (Inl err), w1)
            | Inr result \<Rightarrow>
                (case images (data result) of
                   None \<Rightarrow> (Returns (Inl no_images_error), w1)
                 | Some imgs \<Rightarrow>
                     (case download_loop e (prompt a) (output_seed (data result)) 0 imgs w1 of
                        (Returns downloadedImages, w2) \<Rightarrow>
                          (Returns (Inr \<lparr>text_of = generate_text (big_number e) a result
                                                    downloadedImages,
                                        isError = None\<rparr>), w2)
                      | (Uncaught err, w2) \<Rightarrow> (Uncaught err, w2)
                      | (Pending, w2) \<Rightarrow> (Pending, w2)))))"

text \<open>
  The \<^verbatim>\<open>catch\<close> block of a tool turns what the \<^verbatim>\<open>try\<close> block threw into a failure
  response; it has nothing to catch when the process ended or the block never finished.
\<close>

definition catch_block ::
  "string \<Rightarrow> (thrown + response) completion \<times> world \<Rightarrow> response completion \<times> world" where
  "catch_block errorMessage tried =
     (case tried of
        (Returns (Inr res), w) \<Rightarrow> (Returns res, w)
      | (Returns (Inl err), w) \<Rightarrow> (Returns (failure errorMessage err), w)
      | (Uncaught err, w) \<Rightarrow> (Uncaught err, w)
      | (Pending, w) \<Rightarrow> (Pending, w))"

definition ideogram_v3_generate ::
  "env \<Rightarrow> process \<Rightarrow> args \<Rightarrow> world \<Rightarrow> response completion \<times> world" where
  "ideogram_v3_generate e p a w =
     (if \<not> falConfigured p then (Returns not_configured, w)
      else catch_block ''Failed to generate image with fal-ai/ideogram/v3.''
             (generate_try e a w))"

section \<open>The tool \<^verbatim>\<open>ideogram_v3_generate_queue\<close>\<close>

text \<open>
  \<^verbatim>\<open>const { webhook_url, ...input } = args\<close> (line 538): \<^verbatim>\<open>input\<close> is the arguments
  without \<^verbatim>\<open>webhook_url\<close>, every other property as it was received.
\<close>

definition rest_input :: "args \<Rightarrow> payload" where
  "rest_input a = payload.truncate a"

definition queue_text :: "payload \<Rightarrow> string option \<Rightarrow> string \<Rightarrow> string" where
  "queue_text input hook rid =
     ''Successfully submitted image generation request to queue.\<newline>\<newline>'' @
     ''Request ID: '' @ rid @ ''\<newline>'' @
     ''Prompt: \"'' @ prompt input @ ''\"\<newline>'' @
     (if truthy_string hook then ''Webhook URL: '' @ or_default '''' hook
      else ''No webhook configured'') @
     ''\<newline>\<newline>'' @
     ''Use the request ID with ideogram_v3_queue_status to check progress or ideogram_v3_queue_result to get the final result.''"

definition generate_queue_try ::
  "env \<Rightarrow> args \<Rightarrow> world \<Rightarrow> (thrown + response) completion \<times> world" where
  "generate_queue_try e a w =
     (let input = rest_input a in
      if style_conflict input then (Returns (Inr conflicting_parameters), w)
      else
        (let w1 = w\<lparr>calls := calls w @ [QueueSubmit input (webhook_url a)]\<rparr>
         in case fal_queue_submit e input (webhook_url a) of
              Inl err \<Rightarrow> (Returns (Inl err), w1)
            | Inr rid \<Rightarrow>
                (Returns (Inr \<lparr>text_of = queue_text input (webhook_url a) rid,
                              isError = None\<rparr>), w1)))"

definition ideogram_v3_generate_queue ::
  "env \<Rightarrow> process \<Rightarrow> args \<Rightarrow> world \<Rightarrow> response completion \<times> world" where
  "ideogram_v3_generate_queue e p a w =
     (if \<not> falConfigured p then (Returns not_configured, w)
      else catch_block ''Failed to submit queue request for fal-ai/ideogram/v3.''
             (generate_queue_try e a w))"

section \<open>The tool \<^verbatim>\<open>ideogram_v3_queue_status\<close>\<close>

definition log_line :: "queue_log \<Rightarrow> string" where
  "log_line l = ''['' @ log_timestamp l @ ''] '' @ message l"

definition status_text :: "string \<Rightarrow> queue_status \<Rightarrow> string" where
  "status_text rid st =
     ''Queue Status for Request ID: '' @ rid @ ''\<newline>\<newline>Status: '' @ status st @
     (if truthy_string (response_url st)
      then ''\<newline>Response URL: '' @ or_default '''' (response_url st) else '''') @
     (case non_empty_list (status_logs st) of
        Some ls \<Rightarrow> ''\<newline>\<newline>Logs:\<newline>'' @ join ''\<newline>'' (map log_line ls)
      | None \<Rightarrow> '''')"

definition queue_status_try ::
  "env \<Rightarrow> status_args \<Rightarrow> world \<Rightarrow> (thrown + response) completion \<times> world" where
  "queue_status_try e a w =
     (let with_logs = or_default True (logs a);
          w1 = w\<lparr>calls := calls w @ [QueueStatus (request_id a) with_logs]\<rparr>
      in case fal_queue_status e (request_id a) with_logs of
           Inl err \<Rightarrow> (Returns (Inl err), w1)
         | Inr st \<Rightarrow>
             (Returns (Inr \<lparr>text_of = status_text (request_id a) st, isError = None\<rparr>), w1))"

definition ideogram_v3_queue_status ::
  "env \<Rightarrow> process \<Rightarrow> status_args \<Rightarrow> world \<Rightarrow> response completion \<times> world" where
  "ideogram_v3_queue_status e p a w =
     (if \<not> falConfigured p then (Returns not_configured, w)
      else catch_block ''Failed to check queue status.'' (queue_status_try e a w))"

section \<open>The tool \<^verbatim>\<open>ideogram_v3_queue_result\<close>\<close>

definition queue_label :: "string \<Rightarrow> string" where
  "queue_label rid = ''queue_result_'' @ rid"

definition result_text ::
  "(int \<Rightarrow> string) \<Rightarrow> string \<Rightarrow> fal_result \<Rightarrow> downloaded_image list \<Rightarrow> string" where
  "result_text big rid result downloadedImages =
     ''Queue Result for Request ID: '' @ rid @ ''\<newline>\<newline>'' @
     ''Successfully completed! Generated '' @
     number_to_string big (int (length downloadedImages)) @
     '' image(s):\<newline>\<newline>'' @
     seed_line big (output_seed (data result)) @ ''\<newline>\<newline>'' @
     ''Generated Images:\<newline>'' @ imageDetails big downloadedImages @ ''\<newline>\<newline>'' @
     download_note downloadedImages"

definition queue_result_try ::
  "env \<Rightarrow> result_args \<Rightarrow> world \<Rightarrow> (thrown + response) completion \<times> world" where
  "queue_result_try e a w =
     (let w1 = w\<lparr>calls := calls w @ [QueueResult (request_id a)]\<rparr>
      in case fal_queue_result e (request_id a) of
           Inl err \<Rightarrow> (Returns (Inl err), w1)
         | Inr result \<Rightarrow>
             (case images (data result) of
                None \<Rightarrow> (Returns (Inl no_images_error), w1)
              | Some imgs \<Rightarrow>
                  (case download_loop e (queue_label (request_id a))
                          (output_seed (data result)) 0 imgs w1 of
                     (Returns downloadedImages, w2) \<Rightarrow>
                       (Returns (Inr \<lparr>text_of = result_text (big_number e) (request_id a)
                                                 result downloadedImages,
                                     isError = None\<rparr>), w2)
                   | (Uncaught err, w2) \<Rightarrow> (Uncaught err, w2)
                   | (Pending, w2) \<Rightarrow> (Pending, w2))))"

definition ideogram_v3_queue_result ::
  "env \<Rightarrow> process \<Rightarrow> result_args \<Rightarrow> world \<Rightarrow> response completion \<times> world" where
  "ideogram_v3_queue_result e p a w =
     (if \<not> falConfigured p then (Returns not_configured, w)
      else catch_block ''Failed to get queue result.'' (queue_result_try e a w))"

section \<open>Measuring the downloads\<close>

text \<open>
  For the statements about the download loop. The \<open>n\<close>-th download resolves
  (\<open>download_ok\<close>) when the URL parses, the images directory exists or can be made, the
  write stream opens, and a response with status 200 streams to its end. Its promise
  is settled (\<open>download_settles\<close>), resolved or rejected, unless the write stream is
  created and then either cannot open or receives a body that is cut short. That
  \<open>downloadImage\<close> behaves so is lemma \<open>downloadImage_cases\<close> below. \<open>all_settle\<close> says
  that every download of a list, from position \<open>i\<close> on, is settled, and
  \<open>failed_downloads\<close> counts those that do not resolve.
\<close>

definition download_ok :: "env \<Rightarrow> world \<Rightarrow> nat \<Rightarrow> string \<Rightarrow> bool" where
  "download_ok e w n target =
     (new_URL e target = None \<and>
      (imagesDir e \<in> dirs w \<or> mkdirSync e = None) \<and>
      createWriteStream e n = None \<and>
      (case http_get e n target of
         HttpResponse statusCode (Finish bytes) \<Rightarrow> statusCode = 200
       | _ \<Rightarrow> False))"

definition download_settles :: "env \<Rightarrow> world \<Rightarrow> nat \<Rightarrow> string \<Rightarrow> bool" where
  "download_settles e w n target =
     (if new_URL e target = None \<and> (imagesDir e \<in> dirs w \<or> mkdirSync e = None)
      then createWriteStream e n = None \<and>
           (case http_get e n target of
              HttpResponse statusCode (Aborted written) \<Rightarrow> statusCode \<noteq> 200
            | _ \<Rightarrow> True)
      else True)"

fun all_settle :: "env \<Rightarrow> world \<Rightarrow> nat \<Rightarrow> IdeogramImage list \<Rightarrow> bool" where
  "all_settle e w i [] = True"
| "all_settle e w i (img # rest) =
     (download_settles e w i (url img) \<and> all_settle e w (i + 1) rest)"

fun failed_downloads :: "env \<Rightarrow> world \<Rightarrow> nat \<Rightarrow> IdeogramImage list \<Rightarrow> nat" where
  "failed_downloads e w i [] = 0"
| "failed_downloads e w i (img # rest) =
     (if download_ok e w i (url img) then 0 else 1) + failed_downloads e w (i + 1) rest"

text \<open>
  The entry the loop writes for the image at position \<open>k\<close> when its download is
  settled, and what an asset list of \<open>N\<close> images with \<open>M\<close> failed downloads has to
  satisfy: \<open>N\<close> entries, \<open>N - M\<close> of them with a local path and \<open>M\<close> without, in the
  order and with the URLs of the images, numbered from 1, the entries without a path
  being those of the failed downloads.
\<close>

definition expected_entry ::
  "env \<Rightarrow> world \<Rightarrow> string \<Rightarrow> int option \<Rightarrow> nat \<times> IdeogramImage \<Rightarrow> downloaded_image" where
  "expected_entry e w l sd ki =
     (case ki of (k, img) \<Rightarrow>
        (let fname = generateImageFilename (big_number e) (clock e k) l (k + 1) sd in
         image_entry img fname k
           (if download_ok e w k (url img) then Some (imagesDir e @ ''/'' @ fname) else None)))"

definition expected_entries ::
  "env \<Rightarrow> world \<Rightarrow> string \<Rightarrow> int option \<Rightarrow> IdeogramImage list \<Rightarrow> downloaded_image list" where
  "expected_entries e w l sd imgs =
     map (expected_entry e w l sd) (zip [0 ..< length imgs] imgs)"

definition materialized ::
  "env \<Rightarrow> world \<Rightarrow> IdeogramImage list \<Rightarrow> downloaded_image list \<Rightarrow> bool" where
  "materialized e w imgs xs =
     (length xs = length imgs \<and>
      length (filter (\<lambda>d. localPath d \<noteq> None) xs) =
        length imgs - failed_downloads e w 0 imgs \<and>
      length (filter (\<lambda>d. localPath d = None) xs) = failed_downloads e w 0 imgs \<and>
      map img_url xs = map url imgs \<and>
      map img_index xs = [1 ..< length imgs + 1] \<and>
      map (\<lambda>d. localPath d = None) xs =
        map (\<lambda>(k, img). \<not> download_ok e w k (url img)) (zip [0 ..< length imgs] imgs))"

section \<open>Scenarios\<close>

text \<open>
  The scenario of the specification, for the concrete instances below: the credential is
  set, the backend returns two images and the seed 7, the first download succeeds and
  the second is answered with status 404. Two variants: in \<open>unwritable_env\<close> the write
  streams cannot open their files; in \<open>aborting_env\<close> the connection of the first
  download is closed after two bytes of the body.
\<close>

definition sample_images :: "IdeogramImage list" where
  "sample_images =
     [\<lparr>url = ''https://fal.media/a.png'', content_type = Some ''image/png'',
       file_name = None, file_size = Some 1024\<rparr>,
      \<lparr>url = ''https://fal.media/b.png'', content_type = None,
       file_name = None, file_size = None\<rparr>]"

definition sample_result :: "IdeogramImage list option \<Rightarrow> int option \<Rightarrow> fal_result" where
  "sample_result imgs sd = \<lparr>data = \<lparr>images = imgs, output_seed = sd\<rparr>, requestId = ''req-1''\<rparr>"

definition sample_env :: "(thrown + fal_result) \<Rightarrow> env" where
  "sample_env answer =
     \<lparr>fal_subscribe = (\<lambda>input. answer),
      fal_queue_submit = (\<lambda>input hook. Inr ''req-1''),
      fal_queue_status =
        (\<lambda>rid with_logs. Inr \<lparr>status = ''COMPLETED'', response_url = None, status_logs = None\<rparr>),
      fal_queue_result = (\<lambda>rid. answer),
      new_URL = (\<lambda>target. None),
      mkdirSync = None,
      createWriteStream = (\<lambda>n. None),
      http_get = (\<lambda>n target. if n = 0 then HttpResponse 200 (Finish ''PNG'')
                              else HttpResponse 404 (Finish '''')),
      clock = (\<lambda>n. ''2026-11-02T09:45:00.000Z''),
      imagesDir = ''/srv/images'',
      big_number = (\<lambda>i. ''1e+21'')\<rparr>"

definition unwritable_env :: "(thrown + fal_result) \<Rightarrow> env" where
  "unwritable_env answer =
     (sample_env answer)
       \<lparr>createWriteStream := (\<lambda>n. Some (Error ''EACCES: permission denied, open''))\<rparr>"

definition aborting_env :: "(thrown + fal_result) \<Rightarrow> env" where
  "aborting_env answer =
     (sample_env answer)
       \<lparr>http_get := (\<lambda>n target. if n = 0 then HttpResponse 200 (Aborted ''PN'')
                               else HttpResponse 200 (Finish ''PNG''))\<rparr>"

definition sample_world :: world where
  "sample_world = \<lparr>dirs = {}, files = Map.empty, calls = []\<rparr>"

definition sample_args :: "style option \<Rightarrow> string list option \<Rightarrow> args" where
  "sample_args st codes =
     \<lparr>prompt = ''a red circle'', negative_prompt = None,
      image_size = Some (Preset square), rendering_speed = None,
      style = st, style_codes = codes, color_palette = None, image_urls = None,
      expand_prompt = None, num_images = Some 1, seed = None, sync_mode = None,
      webhook_url = None\<rparr>"

definition sample_request :: result_args where
  "sample_request = \<lparr>request_id = ''req-1''\<rparr>"

definition configured :: process where
  "configured = startup (Some ''key'')"

definition full_args :: args where
  "full_args =
     \<lparr>prompt = ''a red circle'', negative_prompt = Some '''',
      image_size = Some (ImageSize 512 512), rendering_speed = Some TURBO,
      style = Some AUTO, style_codes = None, color_palette = None,
      image_urls = Some [''https://example.org/ref.png''],
      expand_prompt = Some False, num_images = Some 2, seed = Some 0, sync_mode = Some True,
      webhook_url = Some ''https://example.org/hook''\<rparr>"

section \<open>Properties of the file name\<close>

lemma lower_char_fixes_safe: "is_lower_alnum c \<or> c = CHR ''_'' \<Longrightarrow> lower_char c = c"
  by (auto simp: is_lower_alnum_def lower_char_def code_unit_def Let_def)

lemma underscore_not_class: "\<not> is_lower_alnum (CHR ''_'') \<and> \<not> is_space (CHR ''_'')"
  by (simp add: is_lower_alnum_def is_space_def code_unit_def)

lemma lower_alnum_not_space: "is_lower_alnum c \<Longrightarrow> \<not> is_space c"
  by (auto simp: is_lower_alnum_def is_space_def Let_def)

lemma set_collapse_ws:
  "set (collapse_ws s) \<subseteq> {c \<in> set s. \<not> is_space c} \<union> {CHR ''_''}"
proof (induction s rule: collapse_ws.induct)
  case 1
  show ?case by simp
next
  case (2 c cs)
  show ?case
  proof (cases "is_space c")
    case True
    have "set (dropWhile is_space cs) \<subseteq> set cs"
      by (auto dest: set_dropWhileD)
    with 2(1)[OF True] True show ?thesis by auto
  next
    case False
    with 2(2)[OF False] show ?thesis by auto
  qed
qed

lemma collapse_ws_no_space: "\<forall>c \<in> set s. \<not> is_space c \<Longrightarrow> collapse_ws s = s"
  by (induction s) auto

lemma safePrompt_chars: "c \<in> set (safePrompt p) \<Longrightarrow> is_lower_alnum c \<or> c = CHR ''_''"
proof -
  assume "c \<in> set (safePrompt p)"
  then have "c \<in> set (collapse_ws (strip_unsafe (toLowerCase p)))"
    unfolding safePrompt_def by (rule in_set_takeD)
  with set_collapse_ws have "(c \<in> set (strip_unsafe (toLowerCase p)) \<and> \<not> is_space c) \<or> c = CHR ''_''"
    by blast
  then show ?thesis by (auto simp: strip_unsafe_def)
qed

lemma safePrompt_length: "length (safePrompt p) \<le> 50"
  by (simp add: safePrompt_def)

lemma safePrompt_twice:
  "safePrompt (safePrompt p) = filter (\<lambda>c. c \<noteq> CHR ''_'') (safePrompt p)"
proof -
  let ?s = "safePrompt p"
  let ?t = "filter (\<lambda>c. c \<noteq> CHR ''_'') ?s"
  have lower: "toLowerCase ?s = ?s"
    unfolding toLowerCase_def
    by (rule map_idI) (auto dest: safePrompt_chars intro: lower_char_fixes_safe)
  have strip: "strip_unsafe ?s = ?t"
    unfolding strip_unsafe_def
    by (rule filter_cong) (auto dest: safePrompt_chars simp: underscore_not_class)
  have "\<forall>c \<in> set ?t. \<not> is_space c"
    by (auto dest: safePrompt_chars lower_alnum_not_space)
  then have collapse: "collapse_ws ?t = ?t"
    by (rule collapse_ws_no_space)
  have "length ?t \<le> length ?s" by (rule length_filter_le)
  also have "\<dots> \<le> 50" by (rule safePrompt_length)
  finally have "take 50 ?t = ?t" by simp
  then show ?thesis
    by (simp add: safePrompt_def [of "safePrompt p"] lower strip collapse)
qed


lemma digits_small:
  "digits 0 = ''0'' \<and> digits 1 = ''1'' \<and> digits (Suc 0) = ''1'' \<and>
   digits 2 = ''2'' \<and> digits 404 = ''404''"
  by code_simp

lemma number_to_string_small:
  "number_to_string big 0 = ''0'' \<and> number_to_string big 1 = ''1'' \<and>
   number_to_string big 2 = ''2'' \<and> number_to_string big 404 = ''404''"
  by (simp add: number_to_string_def digits_small del: digits.simps)

text \<open>
  C4 (as amended). The sanitization is a total function. For every prompt its result
  has only lower-case letters, digits and underscores and at most 50 characters, and
  the file name built around it is not empty. It is not idempotent: applied to its own
  result it removes the underscores that the first pass wrote for the white space, so
  a second pass changes nothing exactly when the first result has no underscore.
\<close>

theorem sanitization:
  "(\<forall>c \<in> set (safePrompt p). is_lower_alnum c \<or> c = CHR ''_'') \<and>
   length (safePrompt p) \<le> 50 \<and>
   safePrompt (safePrompt p) = filter (\<lambda>c. c \<noteq> CHR ''_'') (safePrompt p) \<and>
   (safePrompt (safePrompt p) = safePrompt p) = (CHR ''_'' \<notin> set (safePrompt p)) \<and>
   generateImageFilename big isoString p i sd \<noteq> ''''"
proof -
  have chars: "\<forall>c \<in> set (safePrompt p). is_lower_alnum c \<or> c = CHR ''_''"
    using safePrompt_chars [of _ p] by blast
  have twice: "safePrompt (safePrompt p) = filter (\<lambda>c. c \<noteq> CHR ''_'') (safePrompt p)"
    by (rule safePrompt_twice)
  have same: "(safePrompt (safePrompt p) = safePrompt p) = (CHR ''_'' \<notin> set (safePrompt p))"
    unfolding twice by (auto simp: filter_id_conv)
  have name: "generateImageFilename big isoString p i sd \<noteq> ''''"
    by (simp add: generateImageFilename_def)
  from chars safePrompt_length [of p] twice same name show ?thesis by (intro conjI)
qed

theorem sanitization_witness:
  "CHR ''a'' \<in> set (safePrompt ''A b!'') \<and>
   (is_lower_alnum (CHR ''a'') \<or> CHR ''a'' = CHR ''_'') \<and>
   length (safePrompt ''A b!'') \<le> 50 \<and>
   safePrompt ''A b!'' = ''a_b'' \<and> safePrompt (safePrompt ''A b!'') = ''ab'' \<and>
   safePrompt (safePrompt ''A b!'') \<noteq> safePrompt ''A b!''"
proof -
  have v: "safePrompt ''A b!'' = ''a_b''" by code_simp
  have m: "CHR ''a'' \<in> set (safePrompt ''A b!'')" by (simp add: v)
  note inst = sanitization [of "''A b!''"]
  from inst m have "is_lower_alnum (CHR ''a'') \<or> CHR ''a'' = CHR ''_''" by blast
  moreover from inst have "length (safePrompt ''A b!'') \<le> 50" by blast
  moreover from inst have "safePrompt (safePrompt ''A b!'') = ''ab''" by (simp add: v)
  moreover from inst have "safePrompt (safePrompt ''A b!'') \<noteq> safePrompt ''A b!''"
    by (simp add: v)
  ultimately show ?thesis using m v by blast
qed

text \<open>
  C4 as the specification states it fails twice: the prompt \<open>a b\<close> is sanitized to
  \<open>a_b\<close> and that to \<open>ab\<close>; and the file name has a full stop (before the extension),
  which is outside the permitted set.
\<close>

theorem sanitization_counterexample:
  "safePrompt (safePrompt ''a b'') \<noteq> safePrompt ''a b'' \<and>
   CHR ''.'' \<in> set (generateImageFilename (big_number (sample_env (Inl NonError)))
                      ''2026-11-02T09:45:00.000Z'' ''a b'' 1 None) \<and>
   \<not> (is_lower_alnum (CHR ''.'') \<or> CHR ''.'' = CHR ''_'')"
proof -
  have "safePrompt ''a b'' = ''a_b'' \<and> safePrompt ''a_b'' = ''ab''" by code_simp
  moreover have "\<not> (is_lower_alnum (CHR ''.'') \<or> CHR ''.'' = CHR ''_'')" by code_simp
  ultimately show ?thesis by (simp add: generateImageFilename_def)
qed

lemma filename_structure:
  "generateImageFilename big ts l i sd =
     ''ideogram_v3'' @ ''_'' @ safePrompt l @
     (case sd of None \<Rightarrow> '''' | Some s \<Rightarrow> if s = 0 then '''' else ''_'' @ number_to_string big s) @
     ''_'' @ number_to_string big (int i) @ ''_'' @ timestamp_of ts @ ''.png''"
  by (simp add: generateImageFilename_def seedStr_def split: option.splits)

lemma scenario_texts:
  "safePrompt ''A red circle'' = ''a_red_circle'' \<and>
   safePrompt ''a red circle'' = ''a_red_circle'' \<and>
   safePrompt (queue_label ''Req-1'') = ''queueresultreq1'' \<and>
   timestamp_of ''2026-11-02T09:45:00.000Z'' = ''2026-11-02T09-45-00-000Z''"
  by code_simp

text \<open>
  C8. The file name of a downloaded image is the label \<open>ideogram_v3\<close>, the sanitized
  text, the seed segment when a seed is present, the 1-based index, the time stamp and
  the extension \<open>.png\<close>. The code writes the seed segment only for a seed other than
  0: for a prompt, the index 1 and the seed 0, which is present, the index follows the
  text directly.
\<close>

theorem filename_seed_zero:
  "generateImageFilename big ''2026-11-02T09:45:00.000Z'' ''A red circle'' 1 (Some 0) =
   ''ideogram_v3_a_red_circle_1_2026-11-02T09-45-00-000Z.png''"
  by (simp add: generateImageFilename_def seedStr_def scenario_texts number_to_string_small)


section \<open>Properties of the download loop\<close>

lemma downloadImage_cases:
  "(download_ok e w n target \<longrightarrow>
      fst (downloadImage e n target fname w) = Returns (Inr (imagesDir e @ ''/'' @ fname))) \<and>
   (\<not> download_ok e w n target \<and> download_settles e w n target \<longrightarrow>
      (\<exists>err. fst (downloadImage e n target fname w) = Returns (Inl err))) \<and>
   (\<not> download_settles e w n target \<longrightarrow>
      fst (downloadImage e n target fname w) = Pending \<or>
      (\<exists>err. fst (downloadImage e n target fname w) = Uncaught err))"
  by (auto simp: downloadImage_def download_ok_def download_settles_def Let_def
           split: option.splits http_outcome.splits body_outcome.splits if_splits)

lemma downloadImage_settled:
  "download_settles e w n target \<Longrightarrow>
   \<exists>res. fst (downloadImage e n target fname w) = Returns res \<and>
     (case res of Inr path \<Rightarrow> Some path | Inl err \<Rightarrow> None) =
     (if download_ok e w n target then Some (imagesDir e @ ''/'' @ fname) else None)"
  using downloadImage_cases [of e w n target fname]
  by (cases "download_ok e w n target") auto

lemma downloadImage_dir:
  "(imagesDir e \<in> dirs (snd (downloadImage e n target fname w)) \<or> mkdirSync e = None) =
   (imagesDir e \<in> dirs w \<or> mkdirSync e = None)"
  by (auto simp: downloadImage_def Let_def
           split: option.splits http_outcome.splits body_outcome.splits if_splits)

lemma downloadImage_keeps_ok:
  "download_ok e (snd (downloadImage e n target fname w)) k t = download_ok e w k t"
  unfolding download_ok_def downloadImage_dir ..

lemma downloadImage_keeps_settles:
  "download_settles e (snd (downloadImage e n target fname w)) k t = download_settles e w k t"
  unfolding download_settles_def downloadImage_dir ..

lemma failed_downloads_cong:
  "(\<And>k t. download_ok e w1 k t = download_ok e w k t) \<Longrightarrow>
   failed_downloads e w1 i imgs = failed_downloads e w i imgs"
  by (induction imgs arbitrary: i) auto

lemma all_settle_cong:
  "(\<And>k t. download_settles e w1 k t = download_settles e w k t) \<Longrightarrow>
   all_settle e w1 i imgs = all_settle e w i imgs"
  by (induction imgs arbitrary: i) auto

lemma expected_entry_cong:
  "(\<And>k t. download_ok e w1 k t = download_ok e w k t) \<Longrightarrow>
   expected_entry e w1 l sd = expected_entry e w l sd"
  by (auto simp: expected_entry_def fun_eq_iff)

lemma snd_push: "snd (push entry later) = snd later"
  by (cases later; cases "fst later") (auto simp: push_def)

lemma fst_push:
  "fst (push entry later) =
     (case fst later of Returns entries \<Rightarrow> Returns (entry # entries)
      | Uncaught err \<Rightarrow> Uncaught err | Pending \<Rightarrow> Pending)"
  by (cases later; cases "fst later") (auto simp: push_def)

lemma download_loop_Cons:
  "download_loop e l sd i (img # rest) w =
     (let fname = generateImageFilename (big_number e) (clock e i) l (i + 1) sd;
          step = downloadImage e i (url img) fname w
      in case fst step of
           Returns res \<Rightarrow>
             push (image_entry img fname i (case res of Inr path \<Rightarrow> Some path | Inl err \<Rightarrow> None))
               (download_loop e l sd (i + 1) rest (snd step))
         | Uncaught err \<Rightarrow> (Uncaught err, snd step)
         | Pending \<Rightarrow> (Pending, snd step))"
  by (auto simp: Let_def split: prod.splits sum.splits completion.splits)

lemma downloadImage_calls:
  "prefix (calls w) (calls (snd (downloadImage e n target fname w)))"
  by (auto simp: downloadImage_def Let_def
           split: option.splits http_outcome.splits body_outcome.splits)

lemma download_loop_calls:
  "prefix (calls w) (calls (snd (download_loop e l sd i imgs w)))"
proof (induction imgs arbitrary: i w)
  case Nil
  show ?case by simp
next
  case (Cons img rest)
  let ?fname = "generateImageFilename (big_number e) (clock e i) l (i + 1) sd"
  let ?step = "downloadImage e i (url img) ?fname w"
  have one: "prefix (calls w) (calls (snd ?step))"
    by (rule downloadImage_calls)
  have "prefix (calls (snd ?step)) (calls (snd (download_loop e l sd (i + 1) rest (snd ?step))))"
    by (rule Cons)
  with one have more:
    "prefix (calls w) (calls (snd (download_loop e l sd (i + 1) rest (snd ?step))))"
    by (rule prefix_order.trans)
  show ?case
    using one more
    by (cases "fst ?step")
       (simp_all add: download_loop_Cons Let_def snd_push del: download_loop.simps(2))
qed

lemma download_loop_settled:
  "all_settle e w i imgs \<Longrightarrow>
   fst (download_loop e l sd i imgs w) =
     Returns (map (expected_entry e w l sd) (zip [i ..< i + length imgs] imgs))"
proof (induction imgs arbitrary: i w)
  case Nil
  show ?case by simp
next
  case (Cons img rest)
  let ?fname = "generateImageFilename (big_number e) (clock e i) l (i + 1) sd"
  let ?step = "downloadImage e i (url img) ?fname w"
  from Cons.prems have here: "download_settles e w i (url img)"
    and later: "all_settle e w (i + 1) rest"
    by simp_all
  have "all_settle e (snd ?step) (i + 1) rest"
    using later all_settle_cong [of e "snd ?step" w "i + 1" rest]
    by (simp add: downloadImage_keeps_settles)
  then have ih: "fst (download_loop e l sd (i + 1) rest (snd ?step)) =
      Returns (map (expected_entry e (snd ?step) l sd) (zip [i + 1 ..< i + 1 + length rest] rest))"
    by (rule Cons.IH)
  have same: "expected_entry e (snd ?step) l sd = expected_entry e w l sd"
    by (rule expected_entry_cong) (rule downloadImage_keeps_ok)
  have upt: "[i ..< i + length (img # rest)] = i # [i + 1 ..< i + 1 + length rest]"
    by (simp add: upt_rec)
  from downloadImage_settled [OF here, of ?fname]
  obtain res where step: "fst ?step = Returns res"
    and path: "(case res of Inr path \<Rightarrow> Some path | Inl err \<Rightarrow> None) =
       (if download_ok e w i (url img) then Some (imagesDir e @ ''/'' @ ?fname) else None)"
    by blast
  have ih': "fst (download_loop e l sd (i + 1) rest (snd ?step)) =
      Returns (map (expected_entry e w l sd) (zip [i + 1 ..< i + 1 + length rest] rest))"
    using ih by (simp only: same)
  have entry: "image_entry img ?fname i (case res of Inr path \<Rightarrow> Some path | Inl err \<Rightarrow> None) =
      expected_entry e w l sd (i, img)"
    using path by (simp add: expected_entry_def Let_def)
  have "download_loop e l sd i (img # rest) w =
      push (image_entry img ?fname i (case res of Inr path \<Rightarrow> Some path | Inl err \<Rightarrow> None))
        (download_loop e l sd (i + 1) rest (snd ?step))"
    using step by (simp add: download_loop_Cons Let_def del: download_loop.simps(2))
  then have "fst (download_loop e l sd i (img # rest) w) =
      Returns (expected_entry e w l sd (i, img) #
        map (expected_entry e w l sd) (zip [i + 1 ..< i + 1 + length rest] rest))"
    by (simp only: fst_push ih' entry completion.case)
  then show ?case
    unfolding upt by simp
qed

lemma expected_failed:
  "length (filter (\<lambda>d. localPath d = None)
     (map (expected_entry e w l sd) (zip [i ..< i + length imgs] imgs))) =
   failed_downloads e w i imgs"
proof (induction imgs arbitrary: i)
  case Nil
  show ?case by simp
next
  case (Cons img rest)
  have upt: "[i ..< i + length (img # rest)] = i # [i + 1 ..< i + 1 + length rest]"
    by (simp add: upt_rec)
  show ?case
    unfolding upt using Cons [of "i + 1"]
    by (simp add: expected_entry_def image_entry_def Let_def)
qed

lemma failed_downloads_le: "failed_downloads e w i imgs \<le> length imgs"
  by (induction imgs arbitrary: i) (auto intro: le_SucI)

lemma map_comp_snd_zip:
  "length xs = length ys \<Longrightarrow> map (h \<circ> snd) (zip xs ys) = map h ys"
  by (induction xs ys rule: list_induct2) auto

lemma map_comp_fst_zip:
  "length xs = length ys \<Longrightarrow> map (h \<circ> fst) (zip xs ys) = map h xs"
  by (induction xs ys rule: list_induct2) auto

lemma expected_materialized: "materialized e w imgs (expected_entries e w l sd imgs)"
proof -
  let ?zs = "zip [0 ..< length imgs] imgs"
  let ?xs = "expected_entries e w l sd imgs"
  have len: "length ?xs = length imgs"
    by (simp add: expected_entries_def)
  have none: "length (filter (\<lambda>d. localPath d = None) ?xs) = failed_downloads e w 0 imgs"
    using expected_failed [of e w l sd 0 imgs] by (simp add: expected_entries_def)
  have "length (filter (\<lambda>d. localPath d \<noteq> None) ?xs) +
        length (filter (\<lambda>d. localPath d = None) ?xs) = length ?xs"
    using sum_length_filter_compl [of "\<lambda>d. localPath d \<noteq> None" ?xs] by simp
  with none len have some:
    "length (filter (\<lambda>d. localPath d \<noteq> None) ?xs) =
     length imgs - failed_downloads e w 0 imgs"
    by simp
  have "img_url \<circ> expected_entry e w l sd = url \<circ> snd"
    by (auto simp: fun_eq_iff expected_entry_def image_entry_def Let_def)
  then have urls: "map img_url ?xs = map url imgs"
    by (simp add: expected_entries_def map_comp_snd_zip)
  have "img_index \<circ> expected_entry e w l sd = Suc \<circ> fst"
    by (auto simp: fun_eq_iff expected_entry_def image_entry_def Let_def)
  then have idx: "map img_index ?xs = [1 ..< length imgs + 1]"
    by (simp add: expected_entries_def map_comp_fst_zip map_Suc_upt)
  have nulls: "map (\<lambda>d. localPath d = None) ?xs =
      map (\<lambda>(k, img). \<not> download_ok e w k (url img)) ?zs"
    by (simp add: expected_entries_def expected_entry_def image_entry_def Let_def split_def)
  show ?thesis
    unfolding materialized_def
    using len some none urls idx nulls by (intro conjI)
qed


section \<open>The tools on a well-formed answer of the backend\<close>

lemma generate_success:
  assumes "falConfigured p" and "\<not> style_conflict a"
    and "fal_subscribe e (build_input a) = Inr result"
    and "images (data result) = Some imgs"
  shows "ideogram_v3_generate e p a w =
     (let loop = download_loop e (prompt a) (output_seed (data result)) 0 imgs
                   (w\<lparr>calls := calls w @ [Subscribe (build_input a)]\<rparr>)
      in (case fst loop of
            Returns ds \<Rightarrow>
              Returns \<lparr>text_of = generate_text (big_number e) a result ds, isError = None\<rparr>
          | Uncaught err \<Rightarrow> Uncaught err
          | Pending \<Rightarrow> Pending,
          snd loop))"
  using assms
  by (simp add: ideogram_v3_generate_def generate_try_def catch_block_def Let_def
           split: prod.splits completion.splits)

lemma queue_result_success:
  assumes "falConfigured p"
    and "fal_queue_result e (request_id q) = Inr result"
    and "images (data result) = Some imgs"
  shows "ideogram_v3_queue_result e p q w =
     (let loop = download_loop e (queue_label (request_id q)) (output_seed (data result)) 0 imgs
                   (w\<lparr>calls := calls w @ [QueueResult (request_id q)]\<rparr>)
      in (case fst loop of
            Returns ds \<Rightarrow>
              Returns \<lparr>text_of = result_text (big_number e) (request_id q) result ds,
                       isError = None\<rparr>
          | Uncaught err \<Rightarrow> Uncaught err
          | Pending \<Rightarrow> Pending,
          snd loop))"
  using assms
  by (simp add: ideogram_v3_queue_result_def queue_result_try_def catch_block_def Let_def
           split: prod.splits completion.splits)

text \<open>
  What holds of the asset list when every download is settled: both tools return a
  success written from the expected entries, which have the shape that C3 asks for.
\<close>

lemma generate_assets:
  assumes "falConfigured p" and "\<not> style_conflict a"
    and "fal_subscribe e (build_input a) = Inr result"
    and "images (data result) = Some imgs"
    and "all_settle e w 0 imgs"
  shows "fst (ideogram_v3_generate e p a w) =
       Returns \<lparr>text_of = generate_text (big_number e) a result
                   (expected_entries e w (prompt a) (output_seed (data result)) imgs),
                isError = None\<rparr> \<and>
     materialized e w imgs (expected_entries e w (prompt a) (output_seed (data result)) imgs) \<and>
     failed_downloads e w 0 imgs \<le> length imgs"
proof -
  let ?w1 = "w\<lparr>calls := calls w @ [Subscribe (build_input a)]\<rparr>"
  have ok: "\<And>k t. download_ok e ?w1 k t = download_ok e w k t"
    by (simp add: download_ok_def)
  have "\<And>k t. download_settles e ?w1 k t = download_settles e w k t"
    by (simp add: download_settles_def)
  then have "all_settle e ?w1 0 imgs"
    using assms(5) all_settle_cong [of e ?w1 w 0 imgs] by simp
  then have "fst (download_loop e (prompt a) (output_seed (data result)) 0 imgs ?w1) =
      Returns (expected_entries e ?w1 (prompt a) (output_seed (data result)) imgs)"
    using download_loop_settled [of e ?w1 0 imgs] by (simp add: expected_entries_def)
  moreover have "expected_entries e ?w1 (prompt a) (output_seed (data result)) imgs =
      expected_entries e w (prompt a) (output_seed (data result)) imgs"
    by (simp add: expected_entries_def expected_entry_cong [OF ok])
  ultimately have "fst (ideogram_v3_generate e p a w) =
       Returns \<lparr>text_of = generate_text (big_number e) a result
                   (expected_entries e w (prompt a) (output_seed (data result)) imgs),
                isError = None\<rparr>"
    using generate_success [OF assms(1,2,3,4), of w] by (simp add: Let_def)
  with expected_materialized failed_downloads_le show ?thesis by blast
qed

lemma queue_result_assets:
  assumes "falConfigured p"
    and "fal_queue_result e (request_id q) = Inr result"
    and "images (data result) = Some imgs"
    and "all_settle e w 0 imgs"
  shows "fst (ideogram_v3_queue_result e p q w) =
       Returns \<lparr>text_of = result_text (big_number e) (request_id q) result
                   (expected_entries e w (queue_label (request_id q))
                      (output_seed (data result)) imgs),
                isError = None\<rparr> \<and>
     materialized e w imgs
       (expected_entries e w (queue_label (request_id q)) (output_seed (data result)) imgs) \<and>
     failed_downloads e w 0 imgs \<le> length imgs"
proof -
  let ?w1 = "w\<lparr>calls := calls w @ [QueueResult (request_id q)]\<rparr>"
  let ?l = "queue_label (request_id q)"
  have ok: "\<And>k t. download_ok e ?w1 k t = download_ok e w k t"
    by (simp add: download_ok_def)
  have "\<And>k t. download_settles e ?w1 k t = download_settles e w k t"
    by (simp add: download_settles_def)
  then have "all_settle e ?w1 0 imgs"
    using assms(4) all_settle_cong [of e ?w1 w 0 imgs] by simp
  then have "fst (download_loop e ?l (output_seed (data result)) 0 imgs ?w1) =
      Returns (expected_entries e ?w1 ?l (output_seed (data result)) imgs)"
    using download_loop_settled [of e ?w1 0 imgs] by (simp add: expected_entries_def)
  moreover have "expected_entries e ?w1 ?l (output_seed (data result)) imgs =
      expected_entries e w ?l (output_seed (data result)) imgs"
    by (simp add: expected_entries_def expected_entry_cong [OF ok])
  ultimately have "fst (ideogram_v3_queue_result e p q w) =
       Returns \<lparr>text_of = result_text (big_number e) (request_id q) result
                   (expected_entries e w ?l (output_seed (data result)) imgs),
                isError = None\<rparr>"
    using queue_result_success [OF assms(1,2,3), of w] by (simp add: Let_def)
  with expected_materialized failed_downloads_le show ?thesis by blast
qed

lemma scenario_names:
  "generateImageFilename big ''2026-11-02T09:45:00.000Z'' ''a red circle'' (Suc 0) (Some 7) =
     ''ideogram_v3_a_red_circle_7_1_2026-11-02T09-45-00-000Z.png'' \<and>
   generateImageFilename big ''2026-11-02T09:45:00.000Z'' ''a red circle'' (Suc (Suc 0))
     (Some 7) = ''ideogram_v3_a_red_circle_7_2_2026-11-02T09-45-00-000Z.png'' \<and>
   generateImageFilename big ''2026-11-02T09:45:00.000Z'' (queue_label ''req-1'') (Suc 0)
     (Some 7) = ''ideogram_v3_queueresultreq1_7_1_2026-11-02T09-45-00-000Z.png''"
proof -
  have d: "digits 7 = ''7''" by code_simp
  have q: "safePrompt (queue_label ''req-1'') = ''queueresultreq1''" by code_simp
  show ?thesis
    by (simp add: generateImageFilename_def seedStr_def scenario_texts q
          number_to_string_def digits_small d del: digits.simps)
qed

lemma scenario_ready:
  "falConfigured configured \<and> \<not> style_conflict (sample_args None None) \<and>
   prompt (sample_args None None) = ''a red circle'' \<and>
   request_id sample_request = ''req-1''"
  by (simp add: configured_def startup_def truthy_string_def style_conflict_def
        sample_args_def sample_request_def)

text \<open>
  C3. A failed download of one image should leave the batch going and the response a
  success. Two failures stop the batch instead. In the scenario with a connection that
  is closed during the body of the first image, the download of that image is never
  settled: \<open>generate\<close> never returns, the second image is never requested and the
  truncated file of the first stays. With write streams that cannot open, the error of
  the first stream is an uncaught exception: \<open>queue_result\<close> ends with the process,
  again before the second image and without a response.
\<close>

theorem download_failure_stops_batch:
  "ideogram_v3_generate (aborting_env (Inr (sample_result (Some sample_images) (Some 7))))
     configured (sample_args None None) sample_world =
     (Pending,
      \<lparr>dirs = {''/srv/images''},
       files = [''/srv/images/ideogram_v3_a_red_circle_7_1_2026-11-02T09-45-00-000Z.png''
                  \<mapsto> ''PN''],
       calls = [Subscribe (build_input (sample_args None None)),
                HttpGet ''https://fal.media/a.png'']\<rparr>) \<and>
   ideogram_v3_queue_result (unwritable_env (Inr (sample_result (Some sample_images) (Some 7))))
     configured sample_request sample_world =
     (Uncaught (Error ''EACCES: permission denied, open''),
      \<lparr>dirs = {''/srv/images''},
       files = Map.empty,
       calls = [QueueResult ''req-1'', HttpGet ''https://fal.media/a.png'']\<rparr>)"
proof -
  let ?R = "sample_result (Some sample_images) (Some 7)"
  have g: "ideogram_v3_generate (aborting_env (Inr ?R)) configured (sample_args None None)
       sample_world =
     (Pending,
      \<lparr>dirs = {''/srv/images''},
       files = [''/srv/images/ideogram_v3_a_red_circle_7_1_2026-11-02T09-45-00-000Z.png''
                  \<mapsto> ''PN''],
       calls = [Subscribe (build_input (sample_args None None)),
                HttpGet ''https://fal.media/a.png'']\<rparr>)"
    using scenario_ready
    by (simp add: generate_success [where imgs = sample_images]
          aborting_env_def sample_env_def sample_result_def sample_images_def sample_world_def
          Let_def scenario_names downloadImage_def)
  have q: "ideogram_v3_queue_result (unwritable_env (Inr ?R)) configured sample_request
       sample_world =
     (Uncaught (Error ''EACCES: permission denied, open''),
      \<lparr>dirs = {''/srv/images''},
       files = Map.empty,
       calls = [QueueResult ''req-1'', HttpGet ''https://fal.media/a.png'']\<rparr>)"
    using scenario_ready
    by (simp add: queue_result_success [where imgs = sample_images]
          unwritable_env_def sample_env_def sample_result_def sample_images_def
          sample_world_def Let_def scenario_names downloadImage_def)
  from g q show ?thesis by (rule conjI)
qed


section \<open>Validation, configuration and the payload\<close>

lemma conflict_iff:
  "style_conflict a = (style a \<noteq> None \<and> style_codes a \<noteq> None \<and> style_codes a \<noteq> Some [])"
  by (auto simp: style_conflict_def split: option.splits)

lemma rest_input_conflict: "style_conflict (rest_input a) = style_conflict a"
  by (simp add: style_conflict_def rest_input_def payload.truncate_def)

lemma failure_not_conflict: "failure (CHR ''F'' # msg) err \<noteq> conflicting_parameters"
  by (cases err) (simp_all add: failure_def conflicting_parameters_def)

lemma generate_conflict:
  assumes "falConfigured p"
  shows "(fst (ideogram_v3_generate e p a w) = Returns conflicting_parameters) =
     style_conflict a"
proof (cases "style_conflict a")
  case True
  with assms show ?thesis
    by (simp add: ideogram_v3_generate_def generate_try_def catch_block_def)
next
  case False
  have "fst (ideogram_v3_generate e p a w) \<noteq> Returns conflicting_parameters"
  proof (cases "fal_subscribe e (build_input a)")
    case (Inl err)
    with assms False show ?thesis
      by (simp add: ideogram_v3_generate_def generate_try_def catch_block_def Let_def
            failure_not_conflict)
  next
    case (Inr result)
    show ?thesis
    proof (cases "images (data result)")
      case None
      with assms False Inr show ?thesis
        by (simp add: ideogram_v3_generate_def generate_try_def catch_block_def Let_def
              failure_not_conflict)
    next
      case (Some imgs)
      show ?thesis
        unfolding generate_success [OF assms False Inr Some]
        by (simp add: Let_def conflicting_parameters_def split: completion.splits)
    qed
  qed
  with False show ?thesis by simp
qed

lemma generate_calls:
  assumes "falConfigured p" and "\<not> style_conflict a"
  shows "prefix (calls w @ [Subscribe (build_input a)])
           (calls (snd (ideogram_v3_generate e p a w)))"
proof (cases "fal_subscribe e (build_input a)")
  case (Inl err)
  with assms show ?thesis
    by (simp add: ideogram_v3_generate_def generate_try_def catch_block_def Let_def)
next
  case (Inr result)
  show ?thesis
  proof (cases "images (data result)")
    case None
    with assms Inr show ?thesis
      by (simp add: ideogram_v3_generate_def generate_try_def catch_block_def Let_def)
  next
    case (Some imgs)
    let ?w1 = "w\<lparr>calls := calls w @ [Subscribe (build_input a)]\<rparr>"
    have "prefix (calls ?w1)
            (calls (snd (download_loop e (prompt a) (output_seed (data result)) 0 imgs ?w1)))"
      by (rule download_loop_calls)
    then show ?thesis
      unfolding generate_success [OF assms Inr Some] by (simp add: Let_def)
  qed
qed

lemma generate_queue_cases:
  assumes "falConfigured p"
  shows "ideogram_v3_generate_queue e p a w =
     (if style_conflict a then (Returns conflicting_parameters, w)
      else
        (Returns
           (case fal_queue_submit e (rest_input a) (webhook_url a) of
              Inl err \<Rightarrow> failure ''Failed to submit queue request for fal-ai/ideogram/v3.'' err
            | Inr rid \<Rightarrow>
                \<lparr>text_of = queue_text (rest_input a) (webhook_url a) rid, isError = None\<rparr>),
         w\<lparr>calls := calls w @ [QueueSubmit (rest_input a) (webhook_url a)]\<rparr>))"
  using assms
  by (simp add: ideogram_v3_generate_queue_def generate_queue_try_def catch_block_def Let_def
        rest_input_conflict split: sum.splits)

text \<open>
  C1. With the credential set, \<open>generate\<close> and \<open>generate_queue\<close> answer with the
  conflicting-parameters error exactly when \<open>style\<close> is set and \<open>style_codes\<close> is set and
  not empty. In that case the world is left as it was: no request was sent. In every
  other case (one of the two set, neither, or a style with an empty list of codes) the
  validation passes and the request to the backend is the next thing sent.
\<close>

theorem style_validation:
  assumes "falConfigured p"
  shows
    "(fst (ideogram_v3_generate e p a w) = Returns conflicting_parameters) =
       (style a \<noteq> None \<and> style_codes a \<noteq> None \<and> style_codes a \<noteq> Some []) \<and>
     (fst (ideogram_v3_generate_queue e p a w) = Returns conflicting_parameters) =
       (style a \<noteq> None \<and> style_codes a \<noteq> None \<and> style_codes a \<noteq> Some []) \<and>
     (if style a \<noteq> None \<and> style_codes a \<noteq> None \<and> style_codes a \<noteq> Some []
      then snd (ideogram_v3_generate e p a w) = w \<and>
           snd (ideogram_v3_generate_queue e p a w) = w
      else prefix (calls w @ [Subscribe (build_input a)])
             (calls (snd (ideogram_v3_generate e p a w))) \<and>
           calls (snd (ideogram_v3_generate_queue e p a w)) =
             calls w @ [QueueSubmit (rest_input a) (webhook_url a)])"
proof -
  have g: "(fst (ideogram_v3_generate e p a w) = Returns conflicting_parameters) = style_conflict a"
    using assms by (rule generate_conflict)
  have q: "(fst (ideogram_v3_generate_queue e p a w) = Returns conflicting_parameters) = style_conflict a"
  proof (cases "fal_queue_submit e (rest_input a) (webhook_url a)")
    case (Inl err)
    then show ?thesis
      by (simp add: generate_queue_cases [OF assms] failure_not_conflict)
  next
    case (Inr rid)
    then show ?thesis
      by (simp add: generate_queue_cases [OF assms] conflicting_parameters_def)
  qed
  have t: "style_conflict a \<Longrightarrow> snd (ideogram_v3_generate e p a w) = w"
    using assms by (simp add: ideogram_v3_generate_def generate_try_def catch_block_def)
  have tq: "style_conflict a \<Longrightarrow> snd (ideogram_v3_generate_queue e p a w) = w"
    by (simp add: generate_queue_cases [OF assms])
  have fq: "\<not> style_conflict a \<Longrightarrow> calls (snd (ideogram_v3_generate_queue e p a w)) =
             calls w @ [QueueSubmit (rest_input a) (webhook_url a)]"
    by (simp add: generate_queue_cases [OF assms])
  show ?thesis
    using g q t tq fq generate_calls [OF assms, where a = a and e = e and w = w]
    unfolding conflict_iff by presburger
qed



theorem style_validation_witness:
  "falConfigured configured \<and>
   ideogram_v3_generate (sample_env (Inl NonError)) configured
     (sample_args (Some REALISTIC) (Some [''A1B2C3D4''])) sample_world =
     (Returns conflicting_parameters, sample_world) \<and>
   ideogram_v3_generate_queue (sample_env (Inl NonError)) configured
     (sample_args (Some REALISTIC) (Some [''A1B2C3D4''])) sample_world =
     (Returns conflicting_parameters, sample_world) \<and>
   calls (snd (ideogram_v3_generate (sample_env (Inl NonError)) configured
     (sample_args (Some REALISTIC) (Some [])) sample_world)) =
     [Subscribe (build_input (sample_args (Some REALISTIC) (Some [])))] \<and>
   calls (snd (ideogram_v3_generate_queue (sample_env (Inl NonError)) configured
     (sample_args (Some REALISTIC) (Some [])) sample_world)) =
     [QueueSubmit (rest_input (sample_args (Some REALISTIC) (Some []))) None]"
proof -
  let ?E = "sample_env (Inl NonError)"
  have c: "falConfigured configured"
    by (simp add: configured_def startup_def truthy_string_def)
  have bad: "ideogram_v3_generate ?E configured
       (sample_args (Some REALISTIC) (Some [''A1B2C3D4''])) sample_world =
       (Returns conflicting_parameters, sample_world) \<and>
     ideogram_v3_generate_queue ?E configured
       (sample_args (Some REALISTIC) (Some [''A1B2C3D4''])) sample_world =
       (Returns conflicting_parameters, sample_world)"
    using style_validation [OF c, of ?E "sample_args (Some REALISTIC) (Some [''A1B2C3D4''])"
            sample_world]
    by (simp add: sample_args_def prod_eq_iff)
  have g: "calls (snd (ideogram_v3_generate ?E configured
       (sample_args (Some REALISTIC) (Some [])) sample_world)) =
       [Subscribe (build_input (sample_args (Some REALISTIC) (Some [])))]"
    using c by (simp add: ideogram_v3_generate_def generate_try_def catch_block_def
          style_conflict_def sample_args_def sample_env_def sample_world_def Let_def)
  have q: "calls (snd (ideogram_v3_generate_queue ?E configured
       (sample_args (Some REALISTIC) (Some [])) sample_world)) =
       [QueueSubmit (rest_input (sample_args (Some REALISTIC) (Some []))) None]"
    using style_validation [OF c, of ?E "sample_args (Some REALISTIC) (Some [])" sample_world]
    by (simp add: sample_args_def sample_world_def)
  from c bad g q show ?thesis by simp
qed

text \<open>
  C2. When the credential variable is unset (or empty) at the start, the process does
  not exit, and each of the four tools, for every input, answers with the not-configured
  error and the failure flag, leaving the world as it was: nothing was validated and no
  request was sent.
\<close>

theorem not_configured_short_circuit:
  assumes "\<not> truthy_string FAL_KEY"
  shows "exit_code (startup FAL_KEY) = None \<and>
     ideogram_v3_generate e (startup FAL_KEY) a w = (Returns not_configured, w) \<and>
     ideogram_v3_generate_queue e (startup FAL_KEY) a w = (Returns not_configured, w) \<and>
     ideogram_v3_queue_status e (startup FAL_KEY) sa w = (Returns not_configured, w) \<and>
     ideogram_v3_queue_result e (startup FAL_KEY) ra w = (Returns not_configured, w) \<and>
     isError not_configured = Some True"
  using assms
  by (simp add: startup_def ideogram_v3_generate_def ideogram_v3_generate_queue_def
        ideogram_v3_queue_status_def ideogram_v3_queue_result_def not_configured_def)

theorem not_configured_short_circuit_witness:
  "\<not> truthy_string None \<and>
   exit_code (startup None) = None \<and>
   ideogram_v3_generate (sample_env (Inr (sample_result (Some sample_images) None)))
     (startup None) (sample_args None None) sample_world = (Returns not_configured, sample_world) \<and>
   ideogram_v3_generate_queue (sample_env (Inr (sample_result (Some sample_images) None)))
     (startup None) (sample_args (Some AUTO) (Some [''A1B2C3D4''])) sample_world =
     (Returns not_configured, sample_world) \<and>
   ideogram_v3_queue_status (sample_env (Inr (sample_result (Some sample_images) None)))
     (startup None) \<lparr>request_id = ''req-1'', logs = None\<rparr> sample_world =
     (Returns not_configured, sample_world) \<and>
   ideogram_v3_queue_result (sample_env (Inr (sample_result (Some sample_images) None)))
     (startup None) sample_request sample_world = (Returns not_configured, sample_world)"
proof -
  have h: "\<not> truthy_string None"
    by (simp add: truthy_string_def)
  show ?thesis
    using h not_configured_short_circuit [OF h] by blast
qed

lemma default_kept: "(Some (or_default d x) = x) = (x \<noteq> None)"
  by (cases x) (simp_all add: or_default_def)

lemma non_empty_kept: "(non_empty_list x = x) = (x \<noteq> Some [])"
  by (cases x) (auto simp: non_empty_list_def)

text \<open>
  C5 (as amended). \<open>generate\<close> sends the payload it builds: the required and the
  present optional properties, with the defaults applied and with undefined properties
  and empty lists left out. \<open>generate_queue\<close> does not build a payload: it sends the
  properties of the request as they came, without the webhook URL. Neither payload
  depends on the webhook URL, and the two are identical exactly when the request sets
  \<open>negative_prompt\<close>, \<open>image_size\<close>, \<open>rendering_speed\<close>, \<open>expand_prompt\<close>, \<open>num_images\<close>
  and \<open>sync_mode\<close> itself and has no empty \<open>style_codes\<close> or \<open>image_urls\<close> list.
\<close>

theorem payload_construction:
  "(build_input a = rest_input a) =
     (negative_prompt a \<noteq> None \<and> image_size a \<noteq> None \<and> rendering_speed a \<noteq> None \<and>
      expand_prompt a \<noteq> None \<and> num_images a \<noteq> None \<and> sync_mode a \<noteq> None \<and>
      style_codes a \<noteq> Some [] \<and> image_urls a \<noteq> Some []) \<and>
   build_input (a\<lparr>webhook_url := hook\<rparr>) = build_input a \<and>
   rest_input (a\<lparr>webhook_url := hook\<rparr>) = rest_input a \<and>
   (if falConfigured p \<and> \<not> style_conflict a
    then prefix (calls w @ [Subscribe (build_input a)])
           (calls (snd (ideogram_v3_generate e p a w))) \<and>
         calls (snd (ideogram_v3_generate_queue e p a w)) =
           calls w @ [QueueSubmit (rest_input a) (webhook_url a)]
    else snd (ideogram_v3_generate e p a w) = w \<and>
         snd (ideogram_v3_generate_queue e p a w) = w)"
proof -
  have eq: "(build_input a = rest_input a) =
     (negative_prompt a \<noteq> None \<and> image_size a \<noteq> None \<and> rendering_speed a \<noteq> None \<and>
      expand_prompt a \<noteq> None \<and> num_images a \<noteq> None \<and> sync_mode a \<noteq> None \<and>
      style_codes a \<noteq> Some [] \<and> image_urls a \<noteq> Some [])"
    by (simp add: build_input_def rest_input_def payload.truncate_def default_kept
          non_empty_kept conj_ac)
  have hook: "build_input (a\<lparr>webhook_url := hook\<rparr>) = build_input a \<and>
      rest_input (a\<lparr>webhook_url := hook\<rparr>) = rest_input a"
    by (simp add: build_input_def rest_input_def payload.truncate_def)
  have sent: "falConfigured p \<Longrightarrow> \<not> style_conflict a \<Longrightarrow>
      prefix (calls w @ [Subscribe (build_input a)])
           (calls (snd (ideogram_v3_generate e p a w))) \<and>
         calls (snd (ideogram_v3_generate_queue e p a w)) =
           calls w @ [QueueSubmit (rest_input a) (webhook_url a)]"
    by (simp add: generate_calls generate_queue_cases)
  have unsent: "snd (ideogram_v3_generate e p a w) = w \<and>
      snd (ideogram_v3_generate_queue e p a w) = w"
    if "\<not> (falConfigured p \<and> \<not> style_conflict a)"
  proof (cases "falConfigured p")
    case True
    with that show ?thesis
      by (simp add: generate_queue_cases ideogram_v3_generate_def generate_try_def
            catch_block_def)
  next
    case False
    then show ?thesis
      by (simp add: ideogram_v3_generate_def ideogram_v3_generate_queue_def)
  qed
  show ?thesis
    using eq hook sent unsent by presburger
qed

theorem payload_construction_witness:
  "build_input full_args = rest_input full_args \<and>
   build_input (full_args\<lparr>webhook_url := None\<rparr>) = build_input full_args \<and>
   calls (snd (ideogram_v3_generate_queue (sample_env (Inl NonError)) configured full_args
     sample_world)) = [QueueSubmit (rest_input full_args) (Some ''https://example.org/hook'')]"
proof -
  have c: "falConfigured configured"
    by (simp add: configured_def startup_def truthy_string_def)
  have v: "\<not> style_conflict full_args"
    by (simp add: style_conflict_def full_args_def)
  show ?thesis
    using c v payload_construction [of full_args None configured sample_world
        "sample_env (Inl NonError)"]
    by (simp add: full_args_def sample_world_def)
qed

text \<open>
  C5 as the specification states it fails on the request of the scenario: the payload
  of \<open>generate\<close> carries the defaults, that of \<open>generate_queue\<close> does not.
\<close>

theorem payload_construction_counterexample:
  "build_input (sample_args None None) \<noteq> rest_input (sample_args None None)"
  by (simp add: build_input_def rest_input_def payload.truncate_def sample_args_def)


section \<open>Errors and the failure flag\<close>

lemma failure_flag_set: "isError (failure msg err) = Some True"
  by (simp add: failure_def)

text \<open>
  The two tools without downloads always return, with the failure flag exactly when the
  credential is missing, the parameters conflict or the backend client threw. The two
  tools with downloads, when they return, set the flag exactly when the credential is
  missing, the parameters conflict, the backend client threw or its result has no
  \<^verbatim>\<open>images\<close>; a rejected download does not set it.
\<close>

lemma queue_tools_return:
  "(\<exists>res. fst (ideogram_v3_generate_queue e p a w) = Returns res \<and>
      isError res =
        (if \<not> falConfigured p \<or> style_conflict a \<or>
            isl (fal_queue_submit e (rest_input a) (webhook_url a))
         then Some True else None)) \<and>
   (\<exists>res. fst (ideogram_v3_queue_status e p sa w) = Returns res \<and>
      isError res =
        (if \<not> falConfigured p \<or>
            isl (fal_queue_status e (request_id sa) (or_default True (logs sa)))
         then Some True else None))"
  by (simp add: ideogram_v3_generate_queue_def generate_queue_try_def
        ideogram_v3_queue_status_def queue_status_try_def catch_block_def Let_def
        rest_input_conflict failure_flag_set not_configured_def conflicting_parameters_def
      split: sum.splits)

lemma generate_flag:
  assumes "fst (ideogram_v3_generate e p a w) = Returns res"
  shows "isError res =
     (if \<not> falConfigured p \<or> style_conflict a \<or>
         (case fal_subscribe e (build_input a) of
            Inl err \<Rightarrow> True | Inr result \<Rightarrow> images (data result) = None)
      then Some True else None)"
  using assms
  by (auto simp: ideogram_v3_generate_def generate_try_def catch_block_def Let_def
        failure_flag_set not_configured_def conflicting_parameters_def
      split: sum.splits option.splits prod.splits completion.splits if_splits)

lemma queue_result_flag:
  assumes "fst (ideogram_v3_queue_result e p ra w) = Returns res"
  shows "isError res =
     (if \<not> falConfigured p \<or>
         (case fal_queue_result e (request_id ra) of
            Inl err \<Rightarrow> True | Inr result \<Rightarrow> images (data result) = None)
      then Some True else None)"
  using assms
  by (auto simp: ideogram_v3_queue_result_def queue_result_try_def catch_block_def Let_def
        failure_flag_set not_configured_def
      split: sum.splits option.splits prod.splits completion.splits if_splits)

text \<open>
  C7. Every error that arises during a tool invocation should come back to the host as
  a textual response with the failure flag, none as an uncaught fault. In the scenario
  with write streams that cannot open, \<open>generate\<close> returns no response: the error of
  the first stream is emitted while no listener is attached and ends the process as an
  uncaught exception. With a connection that is closed during the body of the first
  image, \<open>queue_result\<close> returns no response either: it waits for ever.
\<close>

theorem stream_error_escapes:
  "fst (ideogram_v3_generate
          (unwritable_env (Inr (sample_result (Some sample_images) (Some 7))))
          configured (sample_args None None) sample_world) =
     Uncaught (Error ''EACCES: permission denied, open'') \<and>
   fst (ideogram_v3_queue_result
          (aborting_env (Inr (sample_result (Some sample_images) (Some 7))))
          configured sample_request sample_world) = Pending"
proof -
  let ?R = "sample_result (Some sample_images) (Some 7)"
  have g: "fst (ideogram_v3_generate (unwritable_env (Inr ?R)) configured
       (sample_args None None) sample_world) =
     Uncaught (Error ''EACCES: permission denied, open'')"
    using scenario_ready
    by (simp add: generate_success [where imgs = sample_images]
          unwritable_env_def sample_env_def sample_result_def sample_images_def
          sample_world_def Let_def downloadImage_def)
  have q: "fst (ideogram_v3_queue_result (aborting_env (Inr ?R)) configured sample_request
       sample_world) = Pending"
    using scenario_ready
    by (simp add: queue_result_success [where imgs = sample_images]
          aborting_env_def sample_env_def sample_result_def sample_images_def
          sample_world_def Let_def downloadImage_def)
  from g q show ?thesis by (rule conjI)
qed


section \<open>Empty results and the seed 0\<close>














section \<open>Files left by a failed download\<close>

lemma write_error_removes_file:
  assumes "new_URL e target = None"
    and "imagesDir e \<in> dirs w \<or> mkdirSync e = None"
    and "createWriteStream e n = None"
    and "http_get e n target = HttpResponse 200 (WriteError written err)"
  shows "downloadImage e n target fname w =
     (Returns (Inl err),
      w\<lparr>dirs := insert (imagesDir e) (dirs w),
        files := (files w)(imagesDir e @ ''/'' @ fname := None),
        calls := calls w @ [HttpGet target]\<rparr>)"
  using assms by (auto simp: downloadImage_def Let_def)

lemma rejected_response_keeps_file:
  assumes "new_URL e target = None"
    and "imagesDir e \<in> dirs w \<or> mkdirSync e = None"
    and "createWriteStream e n = None"
    and "http_get e n target = HttpResponse statusCode body"
    and "statusCode \<noteq> 200"
  shows "downloadImage e n target fname w =
     (Returns (Inl (Error (''Failed to download image: HTTP '' @
                           number_to_string (big_number e) statusCode))),
      w\<lparr>dirs := insert (imagesDir e) (dirs w),
        files := (files w)(imagesDir e @ ''/'' @ fname \<mapsto> ''''),
        calls := calls w @ [HttpGet target]\<rparr>)"
  using assms by (auto simp: downloadImage_def Let_def)

lemma request_error_keeps_file:
  assumes "new_URL e target = None"
    and "imagesDir e \<in> dirs w \<or> mkdirSync e = None"
    and "createWriteStream e n = None"
    and "http_get e n target = RequestError err"
  shows "downloadImage e n target fname w =
     (Returns (Inl err),
      w\<lparr>dirs := insert (imagesDir e) (dirs w),
        files := (files w)(imagesDir e @ ''/'' @ fname \<mapsto> ''''),
        calls := calls w @ [HttpGet target]\<rparr>)"
  using assms by (auto simp: downloadImage_def Let_def)

lemma scenario_files:
  "files (snd (ideogram_v3_generate (sample_env (Inr (sample_result (Some sample_images) (Some 7))))
      configured (sample_args None None) sample_world)) =
   [''/srv/images/ideogram_v3_a_red_circle_7_1_2026-11-02T09-45-00-000Z.png'' \<mapsto> ''PNG'',
    ''/srv/images/ideogram_v3_a_red_circle_7_2_2026-11-02T09-45-00-000Z.png'' \<mapsto> '''']"
  using scenario_ready
  by (simp add: generate_success [where imgs = sample_images]
        sample_env_def sample_result_def sample_images_def sample_world_def
        Let_def scenario_names downloadImage_def number_to_string_small snd_push push_def)

text \<open>
  C6. A failed download should leave no file of its own behind. The write stream is
  opened before the request is sent, and only the error handler of the file stream
  unlinks the file. In the scenario the second download is answered with status 404
  and rejected, and the empty file that its stream created is still there: in the
  world after that download alone, and in the world that \<open>generate\<close> leaves, next to the
  file of the first image.
\<close>

theorem failed_download_leaves_file:
  "fst (downloadImage (sample_env (Inl NonError)) 1 ''https://fal.media/b.png'' ''b.png''
          sample_world) = Returns (Inl (Error ''Failed to download image: HTTP 404'')) \<and>
   files sample_world ''/srv/images/b.png'' = None \<and>
   files (snd (downloadImage (sample_env (Inl NonError)) 1 ''https://fal.media/b.png''
          ''b.png'' sample_world)) ''/srv/images/b.png'' = Some '''' \<and>
   files (snd (ideogram_v3_generate (sample_env (Inr (sample_result (Some sample_images) (Some 7))))
      configured (sample_args None None) sample_world)) =
   [''/srv/images/ideogram_v3_a_red_circle_7_1_2026-11-02T09-45-00-000Z.png'' \<mapsto> ''PNG'',
    ''/srv/images/ideogram_v3_a_red_circle_7_2_2026-11-02T09-45-00-000Z.png'' \<mapsto> '''']"
proof -
  let ?E = "sample_env (Inl NonError)"
  have "downloadImage ?E 1 ''https://fal.media/b.png'' ''b.png'' sample_world =
     (Returns (Inl (Error (''Failed to download image: HTTP '' @
                           number_to_string (big_number ?E) 404))),
      sample_world\<lparr>dirs := insert (imagesDir ?E) (dirs sample_world),
        files := (files sample_world)(imagesDir ?E @ ''/'' @ ''b.png'' \<mapsto> ''''),
        calls := calls sample_world @ [HttpGet ''https://fal.media/b.png'']\<rparr>)"
    by (rule rejected_response_keeps_file [where body = "Finish ''''"])
       (simp_all add: sample_env_def)
  then have "fst (downloadImage ?E 1 ''https://fal.media/b.png''
          ''b.png'' sample_world) = Returns (Inl (Error ''Failed to download image: HTTP 404'')) \<and>
   files sample_world ''/srv/images/b.png'' = None \<and>
   files (snd (downloadImage ?E 1 ''https://fal.media/b.png''
          ''b.png'' sample_world)) ''/srv/images/b.png'' = Some ''''"
    by (simp add: number_to_string_small sample_env_def sample_world_def)
  with scenario_files show ?thesis by simp
qed
end
